theory Spec2Isabelle
  imports Main "HOL-Library.Sublist"
begin

section \<open>The widget factories \<open>searchBox\<close> and \<open>menuSelect\<close>\<close>

text \<open>
  Two modules are embedded: \<^verbatim>\<open>src/widgets/search-box/search-box.js\<close> and the
  menu-select widget module. Both are written in state-passing style over a
  \<open>world\<close>: the browser document, the heap of \<open>renderState\<close> objects the
  closures own, and a trace of the calls made into the collaborators that have an
  observable effect (the DOM-rendering library, the warning channel, selector lookups).
  A \<^verbatim>\<open>throw\<close> is the \<open>Inl\<close> branch of a sum.
\<close>

subsection \<open>The document and the Range interface\<close>

type_synonym node = nat

text \<open>
  The part of the browser document the modules reach: every node has a tag name, an
  ordered list of child nodes and a parent pointer; \<open>querySelector\<close> is the lookup of a
  CSS selector; \<open>documentNode\<close> is the document itself, where a fresh range starts.
\<close>

record dom_document =
  tagName :: "node \<Rightarrow> string"
  childNodes :: "node \<Rightarrow> node list"
  parentNode :: "node \<Rightarrow> node option"
  querySelector :: "string \<Rightarrow> node option"
  documentNode :: node

text \<open>
  A range whose two boundary points lie in the same container node, which is the only
  kind \<^verbatim>\<open>disposer\<close> builds: the children at the offsets from \<open>startOffset\<close> up to,
  not including, \<open>endOffset\<close>.
\<close>

record dom_range =
  rangeContainer :: node
  startOffset :: nat
  endOffset :: nat

text \<open>\<^verbatim>\<open>document.createRange()\<close>: a range collapsed at the start of the document.\<close>

definition createRange :: "dom_document \<Rightarrow> dom_range" where
  "createRange d = \<lparr>rangeContainer = documentNode d, startOffset = 0, endOffset = 0\<rparr>"

text \<open>\<^verbatim>\<open>range.selectNodeContents(node)\<close>: the range now spans all the children of the node.\<close>

definition selectNodeContents :: "dom_document \<Rightarrow> node \<Rightarrow> dom_range \<Rightarrow> dom_range" where
  "selectNodeContents d n r =
     r\<lparr>rangeContainer := n, startOffset := 0, endOffset := length (childNodes d n)\<rparr>"

text \<open>
  \<^verbatim>\<open>range.deleteContents()\<close>: the children inside the range leave the container, and
  lose their parent; the children before and after the range stay.
\<close>

definition deleteContents :: "dom_range \<Rightarrow> dom_document \<Rightarrow> dom_document" where
  "deleteContents r d =
     (let c = rangeContainer r;
          kids = childNodes d c;
          removed = take (endOffset r - startOffset r) (drop (startOffset r) kids);
          kept = take (startOffset r) kids @ drop (endOffset r) kids
      in d\<lparr>childNodes := (childNodes d)(c := kept),
            parentNode := (\<lambda>x. if x \<in> set removed then None else parentNode d x)\<rparr>)"

subsection \<open>Values the options and payloads carry\<close>

text \<open>
  A callback, an item array or a configuration object that the modules pass along
  without looking inside is an opaque reference.
\<close>

datatype jsref = Ref nat

text \<open>The \<^verbatim>\<open>autofocus\<close> option is tested with \<^verbatim>\<open>typeof\<close>, so it is a tagged value.\<close>

datatype jsval = JBoolean bool | JString string | JNumber int

text \<open>\<^verbatim>\<open>@property {string|HTMLElement} container\<close>: a CSS selector or an element.\<close>

datatype container = Selector string | Handle node

text \<open>\<^verbatim>\<open>{function|string}\<close>: a template is a Hogan string or a function.\<close>

datatype template = TemplateString string | TemplateFunction jsref

type_synonym templates = "string \<rightharpoonup> template"

text \<open>\<^verbatim>\<open>{string|string[]}\<close>: a user class is one string or an array of strings.\<close>

datatype class_value = ClassString string | ClassArray "string list"

type_synonym user_cssClasses = "string \<rightharpoonup> class_value"

text \<open>The computed \<^verbatim>\<open>cssClasses\<close> object literal: slot names with their class strings, in order.\<close>

type_synonym cssClasses = "(string \<times> string) list"

datatype sortBy = SortNames "string list" | SortFunction jsref

text \<open>
  What a factory can throw: \<^verbatim>\<open>new Error(message)\<close>; the \<^verbatim>\<open>TypeError\<close> of
  destructuring \<^verbatim>\<open>undefined\<close>; the failure of the container lookup.
\<close>

datatype error = Error string | TypeError | ContainerNotFoundError string

text \<open>A defaulted parameter \<^verbatim>\<open>x = d\<close>: the default applies when the value is \<^verbatim>\<open>undefined\<close>.\<close>

definition withDefault :: "'a \<Rightarrow> 'a option \<Rightarrow> 'a" where
  "withDefault d x = (case x of None \<Rightarrow> d | Some v \<Rightarrow> v)"

text \<open>\<^verbatim>\<open>!container\<close> and \<^verbatim>\<open>!attribute\<close>: \<^verbatim>\<open>undefined\<close> and the empty string are falsy, an element is truthy.\<close>

fun falsy_container :: "container option \<Rightarrow> bool" where
  "falsy_container None = True"
| "falsy_container (Some (Selector s)) = (s = [])"
| "falsy_container (Some (Handle n)) = False"

fun falsy_string :: "string option \<Rightarrow> bool" where
  "falsy_string None = True"
| "falsy_string (Some s) = (s = [])"

definition newline :: char where
  "newline = CHR 0x0A"

definition apostrophe :: char where
  "apostrophe = CHR 0x27"

subsection \<open>Template props, render state, virtual nodes\<close>

text \<open>
  The bundle \<^verbatim>\<open>prepareTemplateProps\<close> returns: the resolved templates, the default
  templates, the transform function and the template configuration of the consumer.
\<close>

record template_props =
  tp_templates :: templates
  tp_defaultTemplates :: templates
  tp_transformData :: "jsref option"
  tp_templatesConfig :: jsref

text \<open>The \<^verbatim>\<open>renderState\<close> object; \<^verbatim>\<open>{}\<close> has no \<^verbatim>\<open>templateProps\<close>.\<close>

record render_state =
  templateProps :: "template_props option"

definition empty_renderState :: render_state where
  "empty_renderState = \<lparr>templateProps = None\<rparr>"

text \<open>The props of \<^verbatim>\<open><SearchBox ... />\<close> and of \<^verbatim>\<open><MenuSelect ... />\<close>.\<close>

record searchBox_props =
  sbx_query :: string
  sbx_placeholder :: string
  sbx_autofocus :: jsval
  sbx_refine :: jsref
  sbx_searchAsYouType :: bool
  sbx_templates :: templates
  sbx_showSubmit :: bool
  sbx_showReset :: bool
  sbx_showLoadingIndicator :: bool
  sbx_isSearchStalled :: bool
  sbx_cssClasses :: cssClasses

record menuSelect_props =
  msx_cssClasses :: cssClasses
  msx_items :: jsref
  msx_refine :: jsref
  msx_templateProps :: "template_props option"
  msx_canRefine :: bool

datatype vnode = SearchBox searchBox_props | MenuSelect menuSelect_props

subsection \<open>The world\<close>

datatype event =
  Render vnode node
| Warning string
| QuerySelector string

record world =
  document :: dom_document
  renderStates :: "nat \<Rightarrow> render_state"
  nextRef :: nat
  trace :: "event list"

text \<open>
  \<^verbatim>\<open>render(vnode, containerNode)\<close> of the DOM-rendering library, a black box here:
  the call is recorded in the trace.
\<close>

definition render :: "vnode \<Rightarrow> node \<Rightarrow> world \<Rightarrow> world" where
  "render v containerNode w = w\<lparr>trace := trace w @ [Render v containerNode]\<rparr>"

definition renderCalls :: "world \<Rightarrow> (vnode \<times> node) list" where
  "renderCalls w = concat (map (\<lambda>e. case e of Render v n \<Rightarrow> [(v, n)] | _ \<Rightarrow> []) (trace w))"

text \<open>
  Modelled from the spec: \<^verbatim>\<open>warning\<close> of \<^verbatim>\<open>lib/utils\<close> is not among the sources.
  Section 7: a warning channel flags an incorrectly typed optional parameter without
  aborting construction. The message goes out when the condition is false.
\<close>

definition warning :: "bool \<Rightarrow> string \<Rightarrow> world \<Rightarrow> world" where
  "warning condition message w =
     (if condition then w else w\<lparr>trace := trace w @ [Warning message]\<rparr>)"

text \<open>
  Modelled from the spec: \<^verbatim>\<open>getContainerNode\<close> of \<^verbatim>\<open>lib/utils\<close> is not among the
  sources. Section 4.4, step 2: it accepts either a direct handle or a lookup key, and
  fails with \<open>ContainerNotFoundError\<close> if a lookup key resolves to nothing. The lookup
  is recorded in the trace.
\<close>

definition getContainerNode :: "container \<Rightarrow> world \<Rightarrow> (error + node) \<times> world" where
  "getContainerNode c w =
     (case c of
        Handle n \<Rightarrow> (Inr n, w)
      | Selector s \<Rightarrow>
          (let w1 = w\<lparr>trace := trace w @ [QuerySelector s]\<rparr>
           in case querySelector (document w) s of
                None \<Rightarrow> (Inl (ContainerNotFoundError s), w1)
              | Some n \<Rightarrow> (Inr n, w1)))"

text \<open>
  Modelled from the spec: \<^verbatim>\<open>prepareTemplateProps\<close> of \<^verbatim>\<open>lib/utils\<close> is not among
  the sources. Section 4.2: for every template slot, the user-supplied template
  overrides the default; unspecified slots fall back to the default. Section 3: the
  bundle holds the resolved templates, the default templates, the transform function
  and the template configuration supplied by the consumer.
\<close>

definition prepareTemplateProps ::
  "jsref option \<Rightarrow> templates \<Rightarrow> jsref \<Rightarrow> templates \<Rightarrow> template_props" where
  "prepareTemplateProps transformData defaultTemplates templatesConfig templates =
     \<lparr>tp_templates = (\<lambda>slot. case templates slot of
                                Some t \<Rightarrow> Some t
                              | None \<Rightarrow> defaultTemplates slot),
      tp_defaultTemplates = defaultTemplates,
      tp_transformData = transformData,
      tp_templatesConfig = templatesConfig\<rparr>"

subsection \<open>Class names\<close>

text \<open>
  Modelled from the spec: \<^verbatim>\<open>component\<close> of \<^verbatim>\<open>lib/suit\<close> is not among the sources.
  Section 4.1: \<^verbatim>\<open>build(baseName, modifier?, descendant?) -> string\<close>, deterministic,
  pure, no side effects. The format of the class token is not given, so the builder is
  a parameter of the factories: a function from the component name and the options
  \<^verbatim>\<open>{ modifierName, descendantName }\<close> to the base class token. \<^verbatim>\<open>suit()\<close> passes no
  option.
\<close>

record suit_options =
  modifierName :: "string option"
  descendantName :: "string option"

type_synonym component = "string \<Rightarrow> suit_options \<Rightarrow> string"

definition no_suit_options :: suit_options where
  "no_suit_options = \<lparr>modifierName = None, descendantName = None\<rparr>"

definition descendant :: "string \<Rightarrow> suit_options" where
  "descendant name = \<lparr>modifierName = None, descendantName = Some name\<rparr>"

definition modifier :: "string \<Rightarrow> suit_options" where
  "modifier name = \<lparr>modifierName = Some name, descendantName = None\<rparr>"

text \<open>
  Modelled from the spec: \<^verbatim>\<open>cx\<close> is the \<^verbatim>\<open>classnames\<close> package, not among the
  sources. Section 4.1: the caller concatenates the base class token with zero or more
  user-supplied override tokens, space-joined, duplicates permitted. An argument that
  is \<^verbatim>\<open>undefined\<close> or an empty string contributes nothing; an array contributes its
  strings in order.
\<close>

fun cx_tokens :: "class_value option \<Rightarrow> string list" where
  "cx_tokens None = []"
| "cx_tokens (Some (ClassString s)) = [s]"
| "cx_tokens (Some (ClassArray ss)) = ss"

fun join_spaces :: "string list \<Rightarrow> string" where
  "join_spaces [] = []"
| "join_spaces [s] = s"
| "join_spaces (s # t # ts) = s @ '' '' @ join_spaces (t # ts)"

definition cx :: "class_value option list \<Rightarrow> string" where
  "cx args = join_spaces (filter (\<lambda>s. s \<noteq> []) (concat (map cx_tokens args)))"

subsection \<open>The search-box module\<close>

text \<open>
  \<^verbatim>\<open>createDocumentationMessageGenerator\<close> and \<^verbatim>\<open>createDocumentationLink\<close> of
  \<^verbatim>\<open>lib/utils\<close>, \<^verbatim>\<open>defaultTemplates\<close> and the connector \<^verbatim>\<open>connectSearchBox\<close> are
  not among the sources: they are parameters. A connector is given the renderer and the
  teardown function and either throws or returns \<^verbatim>\<open>makeWidget\<close>, which in turn either
  throws or returns the widget.
\<close>

definition withUsage :: "(string \<Rightarrow> string \<Rightarrow> string) \<Rightarrow> string \<Rightarrow> string" where
  "withUsage createDocumentationMessageGenerator =
     createDocumentationMessageGenerator ''search-box''"

definition suit_searchBox :: "component \<Rightarrow> suit_options \<Rightarrow> string" where
  "suit_searchBox component = component ''SearchBox''"

record searchBox_renderer_args =
  sba_containerNode :: node
  sba_cssClasses :: cssClasses
  sba_placeholder :: string
  sba_templates :: templates
  sba_autofocus :: jsval
  sba_searchAsYouType :: bool
  sba_showReset :: bool
  sba_showSubmit :: bool
  sba_showLoadingIndicator :: bool

record searchBox_payload =
  sbp_refine :: jsref
  sbp_query :: string
  sbp_isSearchStalled :: bool

text \<open>
  \<^verbatim>\<open>const renderer = ({...}) => ({ refine, query, isSearchStalled }) => { render(...) }\<close>.
  The inner function declares one parameter: the flag the connector passes second is
  dropped.
\<close>

definition renderer_searchBox ::
  "searchBox_renderer_args \<Rightarrow> searchBox_payload \<Rightarrow> bool \<Rightarrow> world \<Rightarrow> world" where
  "renderer_searchBox args payload isFirstRendering w =
     render
       (SearchBox
          \<lparr>sbx_query = sbp_query payload,
           sbx_placeholder = sba_placeholder args,
           sbx_autofocus = sba_autofocus args,
           sbx_refine = sbp_refine payload,
           sbx_searchAsYouType = sba_searchAsYouType args,
           sbx_templates = sba_templates args,
           sbx_showSubmit = sba_showSubmit args,
           sbx_showReset = sba_showReset args,
           sbx_showLoadingIndicator = sba_showLoadingIndicator args,
           sbx_isSearchStalled = sbp_isSearchStalled payload,
           sbx_cssClasses = sba_cssClasses args\<rparr>)
       (sba_containerNode args) w"

text \<open>
  \<^verbatim>\<open>const disposer = containerNode => () => { ... }\<close>. The teardown function it
  returns is \<open>disposer containerNode\<close>, a transformation of the world.
\<close>

definition disposer :: "node \<Rightarrow> world \<Rightarrow> world" where
  "disposer containerNode w =
     (let range = createRange (document w);
          range = selectNodeContents (document w) containerNode range
      in w\<lparr>document := deleteContents range (document w)\<rparr>)"

text \<open>
  The properties an object spread \<^verbatim>\<open>...x\<close> copies: those of \<open>x\<close>, none when \<open>x\<close>
  is \<^verbatim>\<open>undefined\<close>. In \<^verbatim>\<open>{ ...a, ...b }\<close> a property of \<open>b\<close> replaces that of \<open>a\<close>.
\<close>

definition spread :: "('k \<rightharpoonup> 'v) option \<Rightarrow> ('k \<rightharpoonup> 'v)" where
  "spread x = (case x of None \<Rightarrow> Map.empty | Some m \<Rightarrow> m)"

record searchBox_options =
  sbo_container :: "container option"
  sbo_placeholder :: "string option"
  sbo_cssClasses :: "user_cssClasses option"
  sbo_autofocus :: "jsval option"
  sbo_searchAsYouType :: "bool option"
  sbo_showReset :: "bool option"
  sbo_showSubmit :: "bool option"
  sbo_showLoadingIndicator :: "bool option"
  sbo_queryHook :: "jsref option"
  sbo_templates :: "templates option"

text \<open>The object \<^verbatim>\<open>{}\<close> the options default to.\<close>

definition searchBox_no_options :: searchBox_options where
  "searchBox_no_options =
     \<lparr>sbo_container = None, sbo_placeholder = None, sbo_cssClasses = None,
      sbo_autofocus = None, sbo_searchAsYouType = None, sbo_showReset = None,
      sbo_showSubmit = None, sbo_showLoadingIndicator = None, sbo_queryHook = None,
      sbo_templates = None\<rparr>"

record searchBox_widgetParams =
  wp_queryHook :: "jsref option"

type_synonym 'w connectSearchBox =
  "(searchBox_payload \<Rightarrow> bool \<Rightarrow> world \<Rightarrow> world) \<Rightarrow> (world \<Rightarrow> world)
     \<Rightarrow> error + (searchBox_widgetParams \<Rightarrow> error + 'w)"

definition containerRequiredMessage :: string where
  "containerRequiredMessage = ''The `container` option is required.''"

definition inputContainerMessage :: "(string \<Rightarrow> bool \<Rightarrow> string) \<Rightarrow> string" where
  "inputContainerMessage createDocumentationLink =
     ''The `container` option doesn'' @ [apostrophe] @
     ''t accept `input` elements since InstantSearch.js 3.'' @ [newline, newline] @
     ''You may want to migrate using `connectSearchBox`: '' @
     createDocumentationLink ''searchbox'' True @ ''.''"

definition autofocusMessage :: string where
  "autofocusMessage =
     ''The `autofocus` option only supports boolean values since InstantSearch.js 3.''"

fun isBoolean :: "jsval \<Rightarrow> bool" where
  "isBoolean (JBoolean b) = True"
| "isBoolean v = False"

text \<open>The object literal \<^verbatim>\<open>const cssClasses = { root: cx(suit(), userCssClasses.root), ... }\<close>.\<close>

definition cssClasses_searchBox :: "component \<Rightarrow> user_cssClasses \<Rightarrow> cssClasses" where
  "cssClasses_searchBox component userCssClasses =
     (let suit = suit_searchBox component
      in [(''root'', cx [Some (ClassString (suit no_suit_options)), userCssClasses ''root'']),
          (''form'',
             cx [Some (ClassString (suit (descendant ''form''))), userCssClasses ''form'']),
          (''input'',
             cx [Some (ClassString (suit (descendant ''input''))), userCssClasses ''input'']),
          (''submit'',
             cx [Some (ClassString (suit (descendant ''submit''))), userCssClasses ''submit'']),
          (''submitIcon'',
             cx [Some (ClassString (suit (descendant ''submitIcon''))),
                 userCssClasses ''submitIcon'']),
          (''reset'',
             cx [Some (ClassString (suit (descendant ''reset''))), userCssClasses ''reset'']),
          (''resetIcon'',
             cx [Some (ClassString (suit (descendant ''resetIcon''))),
                 userCssClasses ''resetIcon'']),
          (''loadingIndicator'',
             cx [Some (ClassString (suit (descendant ''loadingIndicator''))),
                 userCssClasses ''loadingIndicator'']),
          (''loadingIcon'',
             cx [Some (ClassString (suit (descendant ''loadingIcon''))),
                 userCssClasses ''loadingIcon''])])"

text \<open>
  \<^verbatim>\<open>export default function searchBox({ container, placeholder = '', ... } = {})\<close>.
  The argument is \<open>None\<close> when the factory is called with no argument.
\<close>

definition searchBox ::
  "(string \<Rightarrow> string \<Rightarrow> string) \<Rightarrow> (string \<Rightarrow> bool \<Rightarrow> string) \<Rightarrow> component \<Rightarrow> templates
     \<Rightarrow> 'w connectSearchBox \<Rightarrow> searchBox_options option \<Rightarrow> world \<Rightarrow> (error + 'w) \<times> world" where
  "searchBox createDocumentationMessageGenerator createDocumentationLink component
       defaultTemplates connectSearchBox arg w =
     (let opts = withDefault searchBox_no_options arg;
          container = sbo_container opts;
          placeholder = withDefault [] (sbo_placeholder opts);
          userCssClasses = withDefault Map.empty (sbo_cssClasses opts);
          autofocus = withDefault (JBoolean False) (sbo_autofocus opts);
          searchAsYouType = withDefault True (sbo_searchAsYouType opts);
          showReset = withDefault True (sbo_showReset opts);
          showSubmit = withDefault True (sbo_showSubmit opts);
          showLoadingIndicator = withDefault True (sbo_showLoadingIndicator opts);
          queryHook = sbo_queryHook opts;
          templates = sbo_templates opts
      in if falsy_container container
         then (Inl (Error (withUsage createDocumentationMessageGenerator
                             containerRequiredMessage)), w)
         else
           (case getContainerNode (the container) w of
              (Inl e, w1) \<Rightarrow> (Inl e, w1)
            | (Inr containerNode, w1) \<Rightarrow>
                if tagName (document w1) containerNode = ''INPUT''
                then (Inl (Error (inputContainerMessage createDocumentationLink)), w1)
                else
                  (let w2 = warning (isBoolean autofocus) autofocusMessage w1;
                       cssClasses = cssClasses_searchBox component userCssClasses;
                       specializedRenderer =
                         renderer_searchBox
                           \<lparr>sba_containerNode = containerNode,
                            sba_cssClasses = cssClasses,
                            sba_placeholder = placeholder,
                            sba_templates = spread (Some defaultTemplates) ++ spread templates,
                            sba_autofocus = autofocus,
                            sba_searchAsYouType = searchAsYouType,
                            sba_showReset = showReset,
                            sba_showSubmit = showSubmit,
                            sba_showLoadingIndicator = showLoadingIndicator\<rparr>
                   in case connectSearchBox specializedRenderer (disposer containerNode) of
                        Inl e \<Rightarrow> (Inl e, w2)
                      | Inr makeWidget \<Rightarrow>
                          (makeWidget \<lparr>wp_queryHook = queryHook\<rparr>, w2))))"

subsection \<open>The menu-select module\<close>

text \<open>
  \<^verbatim>\<open>defaultTemplates\<close> and the connector \<^verbatim>\<open>connectMenu\<close> are not among the sources:
  they are parameters.
\<close>

definition suit_menuSelect :: "component \<Rightarrow> suit_options \<Rightarrow> string" where
  "suit_menuSelect component = component ''MenuSelect''"

record instantSearchInstance =
  templatesConfig :: jsref

record menuSelect_renderer_args =
  msa_containerNode :: node
  msa_cssClasses :: cssClasses
  msa_renderState :: nat
  msa_templates :: templates
  msa_transformData :: "jsref option"

record menuSelect_payload =
  msp_refine :: jsref
  msp_items :: jsref
  msp_canRefine :: bool
  msp_instantSearchInstance :: instantSearchInstance

text \<open>
  \<^verbatim>\<open>const renderer = ({...}) => ({ refine, items, canRefine, instantSearchInstance }, isFirstRendering) => {...}\<close>.
  \<open>msa_renderState\<close> is the reference to the \<^verbatim>\<open>renderState\<close> object the closure
  captured.
\<close>

definition renderer_menuSelect ::
  "templates \<Rightarrow> menuSelect_renderer_args \<Rightarrow> menuSelect_payload \<Rightarrow> bool \<Rightarrow> world \<Rightarrow> world" where
  "renderer_menuSelect defaultTemplates args payload isFirstRendering w =
     (let renderState = msa_renderState args
      in if isFirstRendering
         then w\<lparr>renderStates := (renderStates w)
                  (renderState := (renderStates w renderState)
                     \<lparr>templateProps :=
                        Some (prepareTemplateProps
                                (msa_transformData args)
                                defaultTemplates
                                (templatesConfig (msp_instantSearchInstance payload))
                                (msa_templates args))\<rparr>)\<rparr>
         else render
                (MenuSelect
                   \<lparr>msx_cssClasses = msa_cssClasses args,
                    msx_items = msp_items payload,
                    msx_refine = msp_refine payload,
                    msx_templateProps = templateProps (renderStates w renderState),
                    msx_canRefine = msp_canRefine payload\<rparr>)
                (msa_containerNode args) w)"

definition usage :: string where
  "usage =
     ''Usage:'' @ [newline] @
     ''menuSelect({'' @ [newline] @
     ''  container,'' @ [newline] @
     ''  attribute,'' @ [newline] @
     ''  [ sortBy=['' @ [apostrophe] @ ''name:asc'' @ [apostrophe] @ ''] ],'' @ [newline] @
     ''  [ limit=10 ],'' @ [newline] @
     ''  [ cssClasses.{root, noRefinementRoot, select, option} ]'' @ [newline] @
     ''  [ templates.{item,seeAllOptions} ],'' @ [newline] @
     ''  [ transformData.{item} ],'' @ [newline] @
     ''  [ transformItems ]'' @ [newline] @
     ''})''"

record menuSelect_options =
  mso_container :: "container option"
  mso_attribute :: "string option"
  mso_sortBy :: "sortBy option"
  mso_limit :: "int option"
  mso_cssClasses :: "user_cssClasses option"
  mso_templates :: "templates option"
  mso_transformData :: "jsref option"
  mso_transformItems :: "jsref option"

record menu_widgetParams =
  wp_attribute :: string
  wp_limit :: int
  wp_sortBy :: sortBy
  wp_transformItems :: "jsref option"

type_synonym 'w connectMenu =
  "(menuSelect_payload \<Rightarrow> bool \<Rightarrow> world \<Rightarrow> world)
     \<Rightarrow> error + (menu_widgetParams \<Rightarrow> error + 'w)"

definition cssClasses_menuSelect :: "component \<Rightarrow> user_cssClasses \<Rightarrow> cssClasses" where
  "cssClasses_menuSelect component userCssClasses =
     (let suit = suit_menuSelect component
      in [(''root'', cx [Some (ClassString (suit no_suit_options)), userCssClasses ''root'']),
          (''noRefinementRoot'',
             cx [Some (ClassString (suit (modifier ''noRefinement''))),
                 userCssClasses ''noRefinementRoot'']),
          (''select'',
             cx [Some (ClassString (suit (descendant ''select''))), userCssClasses ''select'']),
          (''option'',
             cx [Some (ClassString (suit (descendant ''option''))), userCssClasses ''option''])])"

text \<open>\<^verbatim>\<open>renderState: {}\<close>: a new empty object, at the next free reference.\<close>

definition new_renderState :: "world \<Rightarrow> nat \<times> world" where
  "new_renderState w =
     (nextRef w,
      w\<lparr>renderStates := (renderStates w)(nextRef w := empty_renderState),
        nextRef := Suc (nextRef w)\<rparr>)"

text \<open>
  \<^verbatim>\<open>export default function menuSelect({ container, attribute, ... })\<close>. The parameter
  has no default: with no argument the destructuring of \<^verbatim>\<open>undefined\<close> throws a
  \<^verbatim>\<open>TypeError\<close>.
\<close>

definition menuSelect ::
  "component \<Rightarrow> templates \<Rightarrow> 'w connectMenu \<Rightarrow> menuSelect_options option \<Rightarrow> world
     \<Rightarrow> (error + 'w) \<times> world" where
  "menuSelect component defaultTemplates connectMenu arg w =
     (case arg of
        None \<Rightarrow> (Inl TypeError, w)
      | Some opts \<Rightarrow>
          (let container = mso_container opts;
               attribute = mso_attribute opts;
               sortBy = withDefault (SortNames [''name:asc'']) (mso_sortBy opts);
               limit = withDefault 10 (mso_limit opts);
               userCssClasses = withDefault Map.empty (mso_cssClasses opts);
               templates = withDefault defaultTemplates (mso_templates opts);
               transformData = mso_transformData opts;
               transformItems = mso_transformItems opts
           in if falsy_container container \<or> falsy_string attribute
              then (Inl (Error usage), w)
              else
                (case getContainerNode (the container) w of
                   (Inl e, w1) \<Rightarrow> (Inl e, w1)
                 | (Inr containerNode, w1) \<Rightarrow>
                     (let cssClasses = cssClasses_menuSelect component userCssClasses;
                          (renderState, w2) = new_renderState w1;
                          specializedRenderer =
                            renderer_menuSelect defaultTemplates
                              \<lparr>msa_containerNode = containerNode,
                               msa_cssClasses = cssClasses,
                               msa_renderState = renderState,
                               msa_templates = templates,
                               msa_transformData = transformData\<rparr>
                      in case connectMenu specializedRenderer of
                           Inl e \<Rightarrow> (Inl (Error usage), w2)
                         | Inr makeWidget \<Rightarrow>
                             (case makeWidget
                                     \<lparr>wp_attribute = the attribute, wp_limit = limit,
                                      wp_sortBy = sortBy, wp_transformItems = transformItems\<rparr> of
                                Inl e \<Rightarrow> (Inl (Error usage), w2)
                              | Inr widget \<Rightarrow> (Inr widget, w2))))))"

text \<open>
  The connector calls the renderer once per state update; \<open>invocations\<close> runs a renderer
  closure over the payloads and first-rendering flags of a sequence of such calls.
\<close>

fun invocations ::
  "('p \<Rightarrow> bool \<Rightarrow> world \<Rightarrow> world) \<Rightarrow> ('p \<times> bool) list \<Rightarrow> world \<Rightarrow> world" where
  "invocations f [] w = w"
| "invocations f ((payload, isFirstRendering) # rest) w =
     invocations f rest (f payload isFirstRendering w)"

subsection \<open>The usage message\<close>

text \<open>
  Modelled from the spec: \<^verbatim>\<open>createDocumentationMessageGenerator\<close> of \<^verbatim>\<open>lib/utils\<close> is
  not among the sources. Section 4.4, step 1, and section 7: the message of a
  configuration error includes, and always carries, a usage synopsis. The generator
  made for a widget turns a message into that message followed, after an empty line, by
  the usage synopsis of the widget. The text of the synopsis is not given:
  \<open>usageSynopsis\<close>, from the name of a widget to its synopsis, is a parameter.
\<close>

definition createDocumentationMessageGenerator ::
  "(string \<Rightarrow> string) \<Rightarrow> string \<Rightarrow> string \<Rightarrow> string" where
  "createDocumentationMessageGenerator usageSynopsis name message =
     message @ [newline, newline] @ usageSynopsis name"

text \<open>
  What a caller sees of a failed construction: the factory threw an \<^verbatim>\<open>Error\<close> and
  the synopsis is a part of its message.
\<close>

definition throwsUsage :: "string \<Rightarrow> error + 'w \<Rightarrow> bool" where
  "throwsUsage synopsis result =
     (case result of Inl (Error message) \<Rightarrow> sublist synopsis message | _ \<Rightarrow> False)"

subsection \<open>Sample inputs\<close>

text \<open>
  A small document: the document node 0 has the children 1, an \<^verbatim>\<open>input\<close> element,
  and 2, a \<^verbatim>\<open>div\<close> with the children 3 and 4; the selector \<^verbatim>\<open>#q\<close> finds node 2.
\<close>

definition example_document :: dom_document where
  "example_document =
     \<lparr>tagName = (\<lambda>n. if n = 1 then ''INPUT'' else ''DIV''),
      childNodes = (\<lambda>n. if n = 0 then [1, 2] else if n = 2 then [3, 4] else []),
      parentNode = (\<lambda>n. if n = 1 \<or> n = 2 then Some 0
                         else if n = 3 \<or> n = 4 then Some 2 else None),
      querySelector = (\<lambda>s. if s = ''#q'' then Some 2 else None),
      documentNode = 0\<rparr>"

definition example_world :: world where
  "example_world =
     \<lparr>document = example_document, renderStates = (\<lambda>r. empty_renderState),
      nextRef = 0, trace = []\<rparr>"

text \<open>Sample collaborators, to run the factories on.\<close>

definition example_messageGenerator :: "string \<Rightarrow> string \<Rightarrow> string" where
  "example_messageGenerator name message =
     message @ [newline, newline] @ ''See documentation: '' @ name"

definition example_documentationLink :: "string \<Rightarrow> bool \<Rightarrow> string" where
  "example_documentationLink name connector =
     ''https://example.org/'' @ name @ (if connector then ''#connector'' else [])"

definition example_component :: component where
  "example_component name opts =
     ''ais-'' @ name
       @ (case descendantName opts of None \<Rightarrow> [] | Some d \<Rightarrow> ''-'' @ d)
       @ (case modifierName opts of None \<Rightarrow> [] | Some m \<Rightarrow> ''--'' @ m)"

text \<open>A connector whose widget is the renderer it was given, and connectors that throw.\<close>

definition plain_connectSearchBox ::
  "(searchBox_payload \<Rightarrow> bool \<Rightarrow> world \<Rightarrow> world) connectSearchBox" where
  "plain_connectSearchBox renderFn unmountFn = Inr (\<lambda>params. Inr renderFn)"

definition plain_connectMenu ::
  "(menuSelect_payload \<Rightarrow> bool \<Rightarrow> world \<Rightarrow> world) connectMenu" where
  "plain_connectMenu renderFn = Inr (\<lambda>params. Inr renderFn)"

definition failing_connectSearchBox :: "unit connectSearchBox" where
  "failing_connectSearchBox renderFn unmountFn = Inl (Error ''connector failure'')"

definition failing_connectMenu :: "unit connectMenu" where
  "failing_connectMenu renderFn = Inl (Error ''connector failure'')"

definition rejecting_connectSearchBox :: "unit connectSearchBox" where
  "rejecting_connectSearchBox renderFn unmountFn =
     Inr (\<lambda>params. Inl (Error ''bad widget parameters''))"

definition rejecting_connectMenu :: "unit connectMenu" where
  "rejecting_connectMenu renderFn = Inr (\<lambda>params. Inl (Error ''bad widget parameters''))"

definition example_defaultTemplates :: templates where
  "example_defaultTemplates =
     [''item'' \<mapsto> TemplateString ''DEFAULT_ITEM'',
      ''seeAllOptions'' \<mapsto> TemplateString ''DEFAULT_ALL'']"

definition example_menuSelect_options :: menuSelect_options where
  "example_menuSelect_options =
     \<lparr>mso_container = Some (Selector ''#q''), mso_attribute = Some ''brand'',
      mso_sortBy = None, mso_limit = None, mso_cssClasses = None, mso_templates = None,
      mso_transformData = None, mso_transformItems = None\<rparr>"

definition example_menuSelect_payload :: menuSelect_payload where
  "example_menuSelect_payload =
     \<lparr>msp_refine = Ref 0, msp_items = Ref 1, msp_canRefine = True,
      msp_instantSearchInstance = \<lparr>templatesConfig = Ref 2\<rparr>\<rparr>"

definition example_menuSelect_renderer ::
  "menuSelect_payload \<Rightarrow> bool \<Rightarrow> world \<Rightarrow> world" where
  "example_menuSelect_renderer =
     renderer_menuSelect example_defaultTemplates
       \<lparr>msa_containerNode = 2,
        msa_cssClasses = cssClasses_menuSelect example_component Map.empty,
        msa_renderState = 0,
        msa_templates = example_defaultTemplates,
        msa_transformData = None\<rparr>"

definition example_searchBox_args :: searchBox_renderer_args where
  "example_searchBox_args =
     \<lparr>sba_containerNode = 2, sba_cssClasses = [], sba_placeholder = [],
      sba_templates = Map.empty, sba_autofocus = JBoolean False,
      sba_searchAsYouType = True, sba_showReset = True, sba_showSubmit = True,
      sba_showLoadingIndicator = True\<rparr>"

definition example_searchBox_payload :: searchBox_payload where
  "example_searchBox_payload =
     \<lparr>sbp_refine = Ref 0, sbp_query = ''phone'', sbp_isSearchStalled = False\<rparr>"

definition example_usageSynopsis :: "string \<Rightarrow> string" where
  "example_usageSynopsis name = ''Usage: '' @ name @ ''({ container, [ placeholder ] })''"

text \<open>Connectors whose \<^verbatim>\<open>makeWidget\<close> rejects some widget parameters and accepts others.\<close>

definition selective_connectMenu :: "unit connectMenu" where
  "selective_connectMenu renderFn =
     Inr (\<lambda>params. if wp_attribute params = ''brand''
                     then Inl (Error ''unknown attribute'') else Inr ())"

definition selective_connectSearchBox :: "unit connectSearchBox" where
  "selective_connectSearchBox renderFn unmountFn =
     Inr (\<lambda>params. if wp_queryHook params = None
                     then Inl (Error ''queryHook expected'') else Inr ())"

text \<open>
  Options with the user templates \<^verbatim>\<open>{ seeAllOptions: 'All' }\<close>, and the renderer
  closures the two factories build for them over the sample defaults.
\<close>

definition example_userTemplates :: templates where
  "example_userTemplates = [''seeAllOptions'' \<mapsto> TemplateString ''All'']"

definition example_searchBox_options :: searchBox_options where
  "example_searchBox_options =
     searchBox_no_options
       \<lparr>sbo_container := Some (Selector ''#q''), sbo_templates := Some example_userTemplates\<rparr>"

definition example_searchBox_widget :: "searchBox_payload \<Rightarrow> bool \<Rightarrow> world \<Rightarrow> world" where
  "example_searchBox_widget =
     renderer_searchBox
       \<lparr>sba_containerNode = 2,
        sba_cssClasses = cssClasses_searchBox example_component Map.empty,
        sba_placeholder = [],
        sba_templates = spread (Some example_defaultTemplates) ++ spread (Some example_userTemplates),
        sba_autofocus = JBoolean False,
        sba_searchAsYouType = True,
        sba_showReset = True,
        sba_showSubmit = True,
        sba_showLoadingIndicator = True\<rparr>"

definition example_menuSelect_widget :: "menuSelect_payload \<Rightarrow> bool \<Rightarrow> world \<Rightarrow> world" where
  "example_menuSelect_widget =
     renderer_menuSelect example_defaultTemplates
       \<lparr>msa_containerNode = 2,
        msa_cssClasses = cssClasses_menuSelect example_component Map.empty,
        msa_renderState = 0,
        msa_templates = example_userTemplates,
        msa_transformData = None\<rparr>"

section \<open>Properties\<close>

subsection \<open>Basic facts\<close>

lemma withDefault_simps:
  "withDefault d None = d" "withDefault d (Some v) = v"
  by (simp_all add: withDefault_def)

lemma sublist_after: "sublist s (m @ [a, b] @ s)"
  unfolding sublist_def by (rule exI [of _ "m @ [a, b]"], rule exI [of _ "[]"]) simp

lemma warning_frame:
  "renderStates (warning b m w) = renderStates w \<and> nextRef (warning b m w) = nextRef w"
  by (simp add: warning_def)

lemma getContainerNode_frame:
  "getContainerNode c w = (r, w1) \<Longrightarrow>
     nextRef w1 = nextRef w \<and> renderStates w1 = renderStates w \<and> document w1 = document w"
  by (auto simp add: getContainerNode_def Let_def split: container.splits option.splits)

lemma renderCalls_render:
  "renderCalls (render v n w) = renderCalls w @ [(v, n)]"
  by (simp add: renderCalls_def render_def)

lemma renderStates_render: "renderStates (render v n w) = renderStates w"
  by (simp add: render_def)

text \<open>
  With the connector whose widget is the renderer it was given, the widget a successful
  factory returns is the renderer closure the factory built. \<open>searchBox\<close> leaves the
  store of render states as it is; \<open>menuSelect\<close> adds one empty object at the next free
  reference and advances that reference.
\<close>

lemma searchBox_store:
  "renderStates (snd (searchBox g l c dt conn arg w)) = renderStates w
   \<and> nextRef (snd (searchBox g l c dt conn arg w)) = nextRef w"
proof -
  obtain r w1 where
    g: "getContainerNode (the (sbo_container (withDefault searchBox_no_options arg))) w = (r, w1)"
    by (cases "getContainerNode (the (sbo_container (withDefault searchBox_no_options arg))) w")
  show ?thesis
    using g getContainerNode_frame [OF g]
    by (cases r) (simp_all add: searchBox_def warning_frame Let_def split: sum.splits)
qed

lemma searchBox_plain:
  assumes "fst (searchBox g l c dt plain_connectSearchBox (Some so) w) = Inr f"
  shows "\<exists>n. f = renderer_searchBox
                   \<lparr>sba_containerNode = n,
                    sba_cssClasses =
                      cssClasses_searchBox c (withDefault Map.empty (sbo_cssClasses so)),
                    sba_placeholder = withDefault [] (sbo_placeholder so),
                    sba_templates = spread (Some dt) ++ spread (sbo_templates so),
                    sba_autofocus = withDefault (JBoolean False) (sbo_autofocus so),
                    sba_searchAsYouType = withDefault True (sbo_searchAsYouType so),
                    sba_showReset = withDefault True (sbo_showReset so),
                    sba_showSubmit = withDefault True (sbo_showSubmit so),
                    sba_showLoadingIndicator = withDefault True (sbo_showLoadingIndicator so)\<rparr>"
proof -
  obtain r w1 where g: "getContainerNode (the (sbo_container so)) w = (r, w1)"
    by (cases "getContainerNode (the (sbo_container so)) w")
  from assms g obtain n where "r = Inr n"
    by (cases r) (auto simp add: searchBox_def withDefault_simps Let_def split: if_splits)
  with assms g show ?thesis
    by (auto simp add: searchBox_def withDefault_simps plain_connectSearchBox_def Let_def
             split: if_splits)
qed

lemma menuSelect_plain:
  assumes "fst (menuSelect component dt plain_connectMenu (Some opts) w) = Inr f"
  shows "\<exists>n. f = renderer_menuSelect dt
                   \<lparr>msa_containerNode = n,
                    msa_cssClasses =
                      cssClasses_menuSelect component (withDefault Map.empty (mso_cssClasses opts)),
                    msa_renderState = nextRef w,
                    msa_templates = withDefault dt (mso_templates opts),
                    msa_transformData = mso_transformData opts\<rparr>
         \<and> renderStates (snd (menuSelect component dt plain_connectMenu (Some opts) w))
             = (renderStates w)(nextRef w := empty_renderState)
         \<and> nextRef (snd (menuSelect component dt plain_connectMenu (Some opts) w))
             = Suc (nextRef w)"
proof -
  obtain r w1 where g: "getContainerNode (the (mso_container opts)) w = (r, w1)"
    by (cases "getContainerNode (the (mso_container opts)) w")
  note same = getContainerNode_frame [OF g]
  from assms g obtain n where "r = Inr n"
    by (cases r) (auto simp add: menuSelect_def Let_def split: if_splits)
  with assms g same show ?thesis
    by (auto simp add: menuSelect_def plain_connectMenu_def new_renderState_def Let_def
             split: if_splits)
qed


subsection \<open>The disposer\<close>

lemma disposer_document:
  "document (disposer n w) =
     (document w)\<lparr>childNodes := (childNodes (document w))(n := []),
                  parentNode := (\<lambda>x. if x \<in> set (childNodes (document w) n) then None
                                       else parentNode (document w) x)\<rparr>"
  by (simp add: disposer_def createRange_def selectNodeContents_def deleteContents_def Let_def)

text \<open>
  C6. The teardown function \<open>disposer containerNode\<close> removes every child of the
  container node, which is left empty, and leaves the node where it is: its parent
  pointer is the same and the child lists of all other nodes, its parent's among them,
  are unchanged. The hypothesis is the tree shape of a document: a node is not its own
  child.
\<close>

theorem disposer_clears_container:
  assumes "containerNode \<notin> set (childNodes (document w) containerNode)"
  shows "childNodes (document (disposer containerNode w)) containerNode = []
       \<and> parentNode (document (disposer containerNode w)) containerNode
           = parentNode (document w) containerNode
       \<and> (\<forall>p. p \<noteq> containerNode \<longrightarrow>
             childNodes (document (disposer containerNode w)) p = childNodes (document w) p)"
  using assms by (simp add: disposer_document)

theorem disposer_clears_container_witness:
  "2 \<notin> set (childNodes (document example_world) 2)
   \<and> childNodes (document (disposer 2 example_world)) 2 = []
   \<and> parentNode (document (disposer 2 example_world)) 2 = Some 0
   \<and> childNodes (document (disposer 2 example_world)) 0 = [1, 2]"
proof -
  have h: "2 \<notin> set (childNodes (document example_world) 2)"
    by (simp add: example_world_def example_document_def)
  show ?thesis
    using h disposer_clears_container [OF h]
    by (simp add: example_world_def example_document_def)
qed

text \<open>
  C10. The teardown function is idempotent: run a second time, it leaves the world as
  the first run left it, the container empty. The model of \<open>disposer\<close> has no error
  branch, as the source has none.
\<close>

theorem disposer_idempotent:
  "disposer n (disposer n w) = disposer n w
   \<and> childNodes (document (disposer n (disposer n w))) n = []"
  by (simp add: disposer_def createRange_def selectNodeContents_def deleteContents_def Let_def)

subsection \<open>Option validation\<close>

text \<open>
  C9. \<open>searchBox\<close> called with no argument behaves as with the empty options object:
  both calls throw the error that the container option is required, and leave the
  world as it is.
\<close>

theorem searchBox_no_argument:
  "searchBox g l c dt conn None w = searchBox g l c dt conn (Some searchBox_no_options) w
   \<and> searchBox g l c dt conn None w = (Inl (Error (withUsage g containerRequiredMessage)), w)"
  by (simp add: searchBox_def withDefault_def searchBox_no_options_def Let_def)

text \<open>
  C4. \<open>searchBox\<close> given an element handle whose tag name is \<^verbatim>\<open>INPUT\<close> throws the error
  for the unsupported container. The world is unchanged: the rejection comes before
  the warning about \<^verbatim>\<open>autofocus\<close>, before the class names and before the connector.
\<close>

theorem searchBox_rejects_input_container:
  assumes "sbo_container opts = Some (Handle n)" and "tagName (document w) n = ''INPUT''"
  shows "searchBox g l c dt conn (Some opts) w = (Inl (Error (inputContainerMessage l)), w)"
  using assms by (simp add: searchBox_def withDefault_def getContainerNode_def Let_def)

theorem searchBox_rejects_input_container_witness:
  "searchBox example_messageGenerator example_documentationLink example_component Map.empty
     plain_connectSearchBox
     (Some (searchBox_no_options\<lparr>sbo_container := Some (Handle 1),
                                  sbo_autofocus := Some (JString ''yes'')\<rparr>))
     example_world
   = (Inl (Error (inputContainerMessage example_documentationLink)), example_world)"
  using searchBox_rejects_input_container
          [where opts = "searchBox_no_options\<lparr>sbo_container := Some (Handle 1),
                                               sbo_autofocus := Some (JString ''yes'')\<rparr>"
             and n = 1 and w = example_world and g = example_messageGenerator
             and l = example_documentationLink and c = example_component
             and dt = Map.empty and conn = plain_connectSearchBox]
  by (simp add: example_world_def example_document_def)

text \<open>
  C2. A configuration without \<^verbatim>\<open>container\<close> makes \<open>searchBox\<close> throw the error whose
  message is the one \<open>withUsage\<close> builds from the container requirement; with the
  message generator of the spec, the usage synopsis of the search box is a part of that
  message. It makes \<open>menuSelect\<close> throw the error whose message is the usage synopsis
  of the menu select; \<open>menuSelect\<close> does the same for a configuration without
  \<^verbatim>\<open>attribute\<close>. In each case the world is unchanged: no selector is looked up, no
  node is read or written.
\<close>

theorem factories_require_container:
  "(sbo_container so = None \<longrightarrow>
      searchBox g l c dt conn (Some so) w
        = (Inl (Error (withUsage g containerRequiredMessage)), w)
      \<and> throwsUsage (usageSynopsis ''search-box'')
          (fst (searchBox (createDocumentationMessageGenerator usageSynopsis) l c dt conn
                  (Some so) w)))
   \<and> (mso_container mo = None \<or> mso_attribute mo = None \<longrightarrow>
      menuSelect c dt' conn' (Some mo) w = (Inl (Error usage), w)
      \<and> throwsUsage usage (fst (menuSelect c dt' conn' (Some mo) w)))"
  by (auto simp add: searchBox_def menuSelect_def withDefault_def Let_def throwsUsage_def
        withUsage_def createDocumentationMessageGenerator_def sublist_after
        simp del: append.simps)

theorem factories_require_container_witness:
  "searchBox example_messageGenerator example_documentationLink example_component Map.empty
     plain_connectSearchBox (Some searchBox_no_options) example_world
   = (Inl (Error (withUsage example_messageGenerator containerRequiredMessage)), example_world)
   \<and> throwsUsage (example_usageSynopsis ''search-box'')
        (fst (searchBox (createDocumentationMessageGenerator example_usageSynopsis)
                example_documentationLink example_component Map.empty plain_connectSearchBox
                (Some searchBox_no_options) example_world))
   \<and> menuSelect example_component Map.empty plain_connectMenu
       (Some (example_menuSelect_options\<lparr>mso_attribute := None\<rparr>)) example_world
     = (Inl (Error usage), example_world)
   \<and> menuSelect example_component Map.empty plain_connectMenu
       (Some (example_menuSelect_options\<lparr>mso_container := None\<rparr>)) example_world
     = (Inl (Error usage), example_world)
   \<and> throwsUsage usage
        (fst (menuSelect example_component Map.empty plain_connectMenu
                (Some (example_menuSelect_options\<lparr>mso_container := None\<rparr>)) example_world))"
proof -
  let ?noAttribute = "example_menuSelect_options\<lparr>mso_attribute := None\<rparr>"
  let ?noContainer = "example_menuSelect_options\<lparr>mso_container := None\<rparr>"
  have h: "sbo_container searchBox_no_options = None"
    by (simp add: searchBox_no_options_def)
  have ha: "mso_container ?noAttribute = None \<or> mso_attribute ?noAttribute = None"
    by simp
  have hc: "mso_container ?noContainer = None \<or> mso_attribute ?noContainer = None"
    by simp
  note box =
    factories_require_container
      [where so = searchBox_no_options and g = example_messageGenerator
         and usageSynopsis = example_usageSynopsis
         and l = example_documentationLink and c = example_component
         and dt = Map.empty and conn = plain_connectSearchBox and w = example_world,
       THEN conjunct1, THEN mp, OF h]
  note noAttribute =
    factories_require_container
      [where c = example_component and w = example_world and mo = ?noAttribute
         and dt' = Map.empty and conn' = plain_connectMenu,
       THEN conjunct2, THEN mp, OF ha]
  note noContainer =
    factories_require_container
      [where c = example_component and w = example_world and mo = ?noContainer
         and dt' = Map.empty and conn' = plain_connectMenu,
       THEN conjunct2, THEN mp, OF hc]
  show ?thesis
    by (intro conjI)
       (rule box [THEN conjunct1], rule box [THEN conjunct2],
        rule noAttribute [THEN conjunct1], rule noContainer [THEN conjunct1],
        rule noContainer [THEN conjunct2])
qed

text \<open>
  What the order of the checks means: with an element that is not an \<^verbatim>\<open>input\<close> and an
  \<^verbatim>\<open>autofocus\<close> that is not a boolean, the factory goes on and the warning is issued.
\<close>

lemma searchBox_autofocus_warning:
  assumes "sbo_container opts = Some (Handle n)" and "tagName (document w) n \<noteq> ''INPUT''"
    and "sbo_autofocus opts = Some v" and "\<not> isBoolean v"
  shows "trace (snd (searchBox g l c dt conn (Some opts) w)) = trace w @ [Warning autofocusMessage]"
  using assms
  by (simp add: searchBox_def withDefault_def getContainerNode_def warning_def Let_def
           split: sum.splits)

subsection \<open>Exceptions of the connector\<close>

text \<open>
  C3, as the claim states it, fails for \<open>searchBox\<close>: the factory has no
  \<^verbatim>\<open>try\<close>/\<^verbatim>\<open>catch\<close>, and the error of a connector that throws reaches the caller as
  it is, which is not the error of a missing container.
\<close>

theorem searchBox_connector_counterexample:
  "fst (searchBox example_messageGenerator example_documentationLink example_component
          Map.empty failing_connectSearchBox
          (Some (searchBox_no_options\<lparr>sbo_container := Some (Selector ''#q'')\<rparr>))
          example_world)
     = Inl (Error ''connector failure'')
   \<and> fst (searchBox example_messageGenerator example_documentationLink example_component
          Map.empty failing_connectSearchBox (Some searchBox_no_options) example_world)
     = Inl (Error (withUsage example_messageGenerator containerRequiredMessage))
   \<and> Error ''connector failure''
       \<noteq> Error (withUsage example_messageGenerator containerRequiredMessage)"
  by (simp add: searchBox_def searchBox_no_options_def withDefault_def getContainerNode_def
        example_world_def example_document_def failing_connectSearchBox_def warning_def
        withUsage_def example_messageGenerator_def containerRequiredMessage_def Let_def)

text \<open>
  C3, amended. The options are valid: the container and, for \<open>menuSelect\<close>, the
  attribute are truthy, the container resolves to a node, which for \<open>searchBox\<close> is not
  an \<^verbatim>\<open>input\<close>. For \<open>menuSelect\<close>: if the connector throws when given the
  renderer the factory built, or returns a \<^verbatim>\<open>makeWidget\<close> that throws when given the
  widget parameters of the factory, the factory throws the usage error, the one it
  throws for a missing required option; so whatever such a call throws is the usage
  error. For \<open>searchBox\<close>: if the connector throws, the factory throws that same
  error, and otherwise the factory returns or throws exactly what \<^verbatim>\<open>makeWidget\<close>
  returns or throws.
\<close>

theorem connector_exceptions:
  "(\<not> falsy_container (mso_container mo) \<and> \<not> falsy_string (mso_attribute mo)
      \<and> fst (getContainerNode (the (mso_container mo)) w) = Inr n
    \<longrightarrow>
      (\<forall>e. connectMenu
             (renderer_menuSelect dt
                \<lparr>msa_containerNode = n,
                 msa_cssClasses =
                   cssClasses_menuSelect c (withDefault Map.empty (mso_cssClasses mo)),
                 msa_renderState = nextRef w,
                 msa_templates = withDefault dt (mso_templates mo),
                 msa_transformData = mso_transformData mo\<rparr>) = Inl e
           \<longrightarrow> fst (menuSelect c dt connectMenu (Some mo) w) = Inl (Error usage))
      \<and> (\<forall>makeWidget e.
            connectMenu
             (renderer_menuSelect dt
                \<lparr>msa_containerNode = n,
                 msa_cssClasses =
                   cssClasses_menuSelect c (withDefault Map.empty (mso_cssClasses mo)),
                 msa_renderState = nextRef w,
                 msa_templates = withDefault dt (mso_templates mo),
                 msa_transformData = mso_transformData mo\<rparr>) = Inr makeWidget
            \<and> makeWidget
                 \<lparr>wp_attribute = the (mso_attribute mo),
                  wp_limit = withDefault 10 (mso_limit mo),
                  wp_sortBy = withDefault (SortNames [''name:asc'']) (mso_sortBy mo),
                  wp_transformItems = mso_transformItems mo\<rparr> = Inl e
           \<longrightarrow> fst (menuSelect c dt connectMenu (Some mo) w) = Inl (Error usage))
      \<and> (\<forall>e. fst (menuSelect c dt connectMenu (Some mo) w) = Inl e \<longrightarrow> e = Error usage))
   \<and> (\<not> falsy_container (sbo_container so)
      \<and> fst (getContainerNode (the (sbo_container so)) w) = Inr n'
      \<and> tagName (document w) n' \<noteq> ''INPUT''
    \<longrightarrow>
      (\<forall>e. connectSearchBox
             (renderer_searchBox
                \<lparr>sba_containerNode = n',
                 sba_cssClasses =
                   cssClasses_searchBox c (withDefault Map.empty (sbo_cssClasses so)),
                 sba_placeholder = withDefault [] (sbo_placeholder so),
                 sba_templates = spread (Some dt') ++ spread (sbo_templates so),
                 sba_autofocus = withDefault (JBoolean False) (sbo_autofocus so),
                 sba_searchAsYouType = withDefault True (sbo_searchAsYouType so),
                 sba_showReset = withDefault True (sbo_showReset so),
                 sba_showSubmit = withDefault True (sbo_showSubmit so),
                 sba_showLoadingIndicator = withDefault True (sbo_showLoadingIndicator so)\<rparr>)
             (disposer n') = Inl e
           \<longrightarrow> fst (searchBox g l c dt' connectSearchBox (Some so) w) = Inl e)
      \<and> (\<forall>makeWidget.
            connectSearchBox
             (renderer_searchBox
                \<lparr>sba_containerNode = n',
                 sba_cssClasses =
                   cssClasses_searchBox c (withDefault Map.empty (sbo_cssClasses so)),
                 sba_placeholder = withDefault [] (sbo_placeholder so),
                 sba_templates = spread (Some dt') ++ spread (sbo_templates so),
                 sba_autofocus = withDefault (JBoolean False) (sbo_autofocus so),
                 sba_searchAsYouType = withDefault True (sbo_searchAsYouType so),
                 sba_showReset = withDefault True (sbo_showReset so),
                 sba_showSubmit = withDefault True (sbo_showSubmit so),
                 sba_showLoadingIndicator = withDefault True (sbo_showLoadingIndicator so)\<rparr>)
             (disposer n') = Inr makeWidget
           \<longrightarrow> fst (searchBox g l c dt' connectSearchBox (Some so) w)
                 = makeWidget \<lparr>wp_queryHook = sbo_queryHook so\<rparr>))"
proof (intro conjI impI)
  assume a: "\<not> falsy_container (mso_container mo) \<and> \<not> falsy_string (mso_attribute mo)
      \<and> fst (getContainerNode (the (mso_container mo)) w) = Inr n"
  then obtain w1 where m: "getContainerNode (the (mso_container mo)) w = (Inr n, w1)"
    by (cases "getContainerNode (the (mso_container mo)) w") simp
  have r: "nextRef w1 = nextRef w"
    using getContainerNode_frame [OF m] by simp
  show "\<forall>e. connectMenu
             (renderer_menuSelect dt
                \<lparr>msa_containerNode = n,
                 msa_cssClasses =
                   cssClasses_menuSelect c (withDefault Map.empty (mso_cssClasses mo)),
                 msa_renderState = nextRef w,
                 msa_templates = withDefault dt (mso_templates mo),
                 msa_transformData = mso_transformData mo\<rparr>) = Inl e
           \<longrightarrow> fst (menuSelect c dt connectMenu (Some mo) w) = Inl (Error usage)"
    using a m r by (simp add: menuSelect_def new_renderState_def Let_def)
  show "\<forall>makeWidget e.
            connectMenu
             (renderer_menuSelect dt
                \<lparr>msa_containerNode = n,
                 msa_cssClasses =
                   cssClasses_menuSelect c (withDefault Map.empty (mso_cssClasses mo)),
                 msa_renderState = nextRef w,
                 msa_templates = withDefault dt (mso_templates mo),
                 msa_transformData = mso_transformData mo\<rparr>) = Inr makeWidget
            \<and> makeWidget
                 \<lparr>wp_attribute = the (mso_attribute mo),
                  wp_limit = withDefault 10 (mso_limit mo),
                  wp_sortBy = withDefault (SortNames [''name:asc'']) (mso_sortBy mo),
                  wp_transformItems = mso_transformItems mo\<rparr> = Inl e
           \<longrightarrow> fst (menuSelect c dt connectMenu (Some mo) w) = Inl (Error usage)"
    using a m r by (simp add: menuSelect_def new_renderState_def Let_def)
  show "\<forall>e. fst (menuSelect c dt connectMenu (Some mo) w) = Inl e \<longrightarrow> e = Error usage"
    using a m r
    by (auto simp add: menuSelect_def new_renderState_def Let_def split: sum.splits)
next
  assume a: "\<not> falsy_container (sbo_container so)
      \<and> fst (getContainerNode (the (sbo_container so)) w) = Inr n'
      \<and> tagName (document w) n' \<noteq> ''INPUT''"
  then obtain w2 where s: "getContainerNode (the (sbo_container so)) w = (Inr n', w2)"
    by (cases "getContainerNode (the (sbo_container so)) w") simp
  have d: "document w2 = document w"
    using getContainerNode_frame [OF s] by simp
  show "\<forall>e. connectSearchBox
             (renderer_searchBox
                \<lparr>sba_containerNode = n',
                 sba_cssClasses =
                   cssClasses_searchBox c (withDefault Map.empty (sbo_cssClasses so)),
                 sba_placeholder = withDefault [] (sbo_placeholder so),
                 sba_templates = spread (Some dt') ++ spread (sbo_templates so),
                 sba_autofocus = withDefault (JBoolean False) (sbo_autofocus so),
                 sba_searchAsYouType = withDefault True (sbo_searchAsYouType so),
                 sba_showReset = withDefault True (sbo_showReset so),
                 sba_showSubmit = withDefault True (sbo_showSubmit so),
                 sba_showLoadingIndicator = withDefault True (sbo_showLoadingIndicator so)\<rparr>)
             (disposer n') = Inl e
           \<longrightarrow> fst (searchBox g l c dt' connectSearchBox (Some so) w) = Inl e"
    using a s d by (simp add: searchBox_def withDefault_simps Let_def)
  show "\<forall>makeWidget.
            connectSearchBox
             (renderer_searchBox
                \<lparr>sba_containerNode = n',
                 sba_cssClasses =
                   cssClasses_searchBox c (withDefault Map.empty (sbo_cssClasses so)),
                 sba_placeholder = withDefault [] (sbo_placeholder so),
                 sba_templates = spread (Some dt') ++ spread (sbo_templates so),
                 sba_autofocus = withDefault (JBoolean False) (sbo_autofocus so),
                 sba_searchAsYouType = withDefault True (sbo_searchAsYouType so),
                 sba_showReset = withDefault True (sbo_showReset so),
                 sba_showSubmit = withDefault True (sbo_showSubmit so),
                 sba_showLoadingIndicator = withDefault True (sbo_showLoadingIndicator so)\<rparr>)
             (disposer n') = Inr makeWidget
           \<longrightarrow> fst (searchBox g l c dt' connectSearchBox (Some so) w)
                 = makeWidget \<lparr>wp_queryHook = sbo_queryHook so\<rparr>"
    using a s d by (simp add: searchBox_def withDefault_simps Let_def)
qed

theorem connector_exceptions_witness:
  "fst (menuSelect example_component Map.empty failing_connectMenu
          (Some example_menuSelect_options) example_world) = Inl (Error usage)
   \<and> fst (menuSelect example_component Map.empty selective_connectMenu
          (Some example_menuSelect_options) example_world) = Inl (Error usage)
   \<and> fst (searchBox example_messageGenerator example_documentationLink example_component
          Map.empty failing_connectSearchBox
          (Some (searchBox_no_options\<lparr>sbo_container := Some (Selector ''#q'')\<rparr>))
          example_world) = Inl (Error ''connector failure'')
   \<and> fst (searchBox example_messageGenerator example_documentationLink example_component
          Map.empty selective_connectSearchBox
          (Some (searchBox_no_options\<lparr>sbo_container := Some (Selector ''#q'')\<rparr>))
          example_world) = Inl (Error ''queryHook expected'')"
proof -
  let ?so = "searchBox_no_options\<lparr>sbo_container := Some (Selector ''#q'')\<rparr>"
  have m: "\<not> falsy_container (mso_container example_menuSelect_options)
           \<and> \<not> falsy_string (mso_attribute example_menuSelect_options)
           \<and> fst (getContainerNode (the (mso_container example_menuSelect_options))
                    example_world) = Inr 2"
    by (simp add: example_menuSelect_options_def getContainerNode_def example_world_def
          example_document_def Let_def)
  have s: "\<not> falsy_container (sbo_container ?so)
           \<and> fst (getContainerNode (the (sbo_container ?so)) example_world) = Inr 2
           \<and> tagName (document example_world) 2 \<noteq> ''INPUT''"
    by (simp add: getContainerNode_def example_world_def example_document_def Let_def)
  note thrown =
    connector_exceptions
      [where mo = example_menuSelect_options and w = example_world and n = 2
         and so = ?so and n' = 2
         and connectMenu = failing_connectMenu and connectSearchBox = failing_connectSearchBox
         and c = example_component and dt = Map.empty and dt' = Map.empty
         and g = example_messageGenerator and l = example_documentationLink]
  note rejected =
    connector_exceptions
      [where mo = example_menuSelect_options and w = example_world and n = 2
         and so = ?so and n' = 2
         and connectMenu = selective_connectMenu
         and connectSearchBox = selective_connectSearchBox
         and c = example_component and dt = Map.empty and dt' = Map.empty
         and g = example_messageGenerator and l = example_documentationLink]
  have a: "fst (menuSelect example_component Map.empty failing_connectMenu
                  (Some example_menuSelect_options) example_world) = Inl (Error usage)"
    using thrown [THEN conjunct1, THEN mp, OF m, THEN conjunct1]
    by (simp add: failing_connectMenu_def)
  have b: "fst (menuSelect example_component Map.empty selective_connectMenu
                  (Some example_menuSelect_options) example_world) = Inl (Error usage)"
    using rejected [THEN conjunct1, THEN mp, OF m, THEN conjunct2, THEN conjunct1]
    by (simp add: selective_connectMenu_def example_menuSelect_options_def)
  have c: "fst (searchBox example_messageGenerator example_documentationLink
                  example_component Map.empty failing_connectSearchBox (Some ?so)
                  example_world) = Inl (Error ''connector failure'')"
    using thrown [THEN conjunct2, THEN mp, OF s, THEN conjunct1]
    by (simp add: failing_connectSearchBox_def)
  have d: "fst (searchBox example_messageGenerator example_documentationLink
                  example_component Map.empty selective_connectSearchBox (Some ?so)
                  example_world) = Inl (Error ''queryHook expected'')"
    using rejected [THEN conjunct2, THEN mp, OF s, THEN conjunct2]
    by (simp add: selective_connectSearchBox_def searchBox_no_options_def)
  show ?thesis
    by (intro conjI) (rule a, rule b, rule c, rule d)
qed

subsection \<open>The renderers\<close>

text \<open>
  C1, as the claim states it, fails for the renderer of the search box: invoked with
  the first-rendering flag set, in a world where the DOM-rendering library has not been
  called, it calls the library once.
\<close>

theorem searchBox_first_render_counterexample:
  "renderCalls example_world = []
   \<and> length (renderCalls (renderer_searchBox example_searchBox_args example_searchBox_payload
                 True example_world)) = 1"
  by (simp add: renderer_searchBox_def example_world_def renderCalls_def render_def)

text \<open>
  C1, amended. The renderer closure of \<open>menuSelect\<close>, invoked with the flag set, leaves
  the trace as it is (no call into the DOM-rendering library) and stores the prepared
  template props in its render state; invoked next with the flag cleared, it calls the
  library exactly once, on its container node, with the stored template props. The
  renderer closure of \<open>searchBox\<close> has no render state and drops the flag: every
  invocation, the first included, leaves the render states as they are and calls the
  library exactly once.
\<close>

theorem first_render_contract:
  "trace (renderer_menuSelect dt args p True w) = trace w
   \<and> templateProps (renderStates (renderer_menuSelect dt args p True w) (msa_renderState args))
       = Some (prepareTemplateProps (msa_transformData args) dt
                 (templatesConfig (msp_instantSearchInstance p)) (msa_templates args))
   \<and> renderCalls (renderer_menuSelect dt args p' False (renderer_menuSelect dt args p True w))
       = renderCalls (renderer_menuSelect dt args p True w)
         @ [(MenuSelect
               \<lparr>msx_cssClasses = msa_cssClasses args,
                msx_items = msp_items p',
                msx_refine = msp_refine p',
                msx_templateProps =
                  Some (prepareTemplateProps (msa_transformData args) dt
                          (templatesConfig (msp_instantSearchInstance p)) (msa_templates args)),
                msx_canRefine = msp_canRefine p'\<rparr>,
             msa_containerNode args)]
   \<and> renderStates (renderer_searchBox sargs sp b w) = renderStates w
   \<and> renderCalls (renderer_searchBox sargs sp b w)
       = renderCalls w
         @ [(SearchBox
               \<lparr>sbx_query = sbp_query sp,
                sbx_placeholder = sba_placeholder sargs,
                sbx_autofocus = sba_autofocus sargs,
                sbx_refine = sbp_refine sp,
                sbx_searchAsYouType = sba_searchAsYouType sargs,
                sbx_templates = sba_templates sargs,
                sbx_showSubmit = sba_showSubmit sargs,
                sbx_showReset = sba_showReset sargs,
                sbx_showLoadingIndicator = sba_showLoadingIndicator sargs,
                sbx_isSearchStalled = sbp_isSearchStalled sp,
                sbx_cssClasses = sba_cssClasses sargs\<rparr>,
             sba_containerNode sargs)]"
  by (simp add: renderer_menuSelect_def renderer_searchBox_def renderCalls_render
        renderStates_render Let_def)

subsection \<open>The render state\<close>

lemma invocations_later:
  "renderStates (invocations (renderer_menuSelect dt args) (map (\<lambda>p. (p, False)) ps) v)
     = renderStates v"
  by (induction ps arbitrary: v)
     (simp_all add: renderer_menuSelect_def renderStates_render Let_def)

text \<open>
  C7, as the claim states it, fails for the widget instances of \<open>searchBox\<close>: the
  factory creates no render state, the store and the next free reference are what they
  were, and the invocation of the renderer with the flag set writes nothing: no
  \<open>templateProps\<close> is populated.
\<close>

theorem searchBox_renderState_counterexample:
  "fst (searchBox example_messageGenerator example_documentationLink example_component
          example_defaultTemplates plain_connectSearchBox (Some example_searchBox_options)
          example_world) = Inr example_searchBox_widget
   \<and> renderStates
        (snd (searchBox example_messageGenerator example_documentationLink example_component
                example_defaultTemplates plain_connectSearchBox (Some example_searchBox_options)
                example_world))
       = renderStates example_world
   \<and> nextRef
        (snd (searchBox example_messageGenerator example_documentationLink example_component
                example_defaultTemplates plain_connectSearchBox (Some example_searchBox_options)
                example_world))
       = nextRef example_world
   \<and> renderStates
        (example_searchBox_widget example_searchBox_payload True
           (snd (searchBox example_messageGenerator example_documentationLink example_component
                   example_defaultTemplates plain_connectSearchBox
                   (Some example_searchBox_options) example_world)))
       = renderStates example_world
   \<and> templateProps
        (renderStates
           (example_searchBox_widget example_searchBox_payload True
              (snd (searchBox example_messageGenerator example_documentationLink
                      example_component example_defaultTemplates plain_connectSearchBox
                      (Some example_searchBox_options) example_world))) 0)
       = None"
  by (simp add: searchBox_def example_searchBox_options_def searchBox_no_options_def
        example_world_def example_document_def getContainerNode_def warning_def
        plain_connectSearchBox_def example_searchBox_widget_def withDefault_def Let_def
        renderer_searchBox_def render_def empty_renderState_def)

text \<open>
  C7, amended. Let \<open>menuSelect\<close> succeed and return the renderer closure \<open>f\<close>. The
  render state the factory created, at the reference \<open>nextRef w\<close>, is the empty object,
  and it is the instance's own: the factory leaves every other object as it was and
  moves the next free reference past it, so the renderer of a widget created in any
  later world never touches it. An invocation of \<open>f\<close> with the flag set writes
  \<open>templateProps\<close> of that object and nothing else in the store; an invocation with the
  flag cleared leaves the whole store as it is. So when the connector delivers the flag
  set first and cleared ever after, the store at the end is the store of the factory
  with that one write. A widget instance of \<open>searchBox\<close> has no render state: neither
  the factory nor the renderer changes the store.
\<close>

theorem renderState_written_once:
  "(fst (menuSelect component dt plain_connectMenu (Some opts) w) = Inr f \<longrightarrow>
      renderStates (snd (menuSelect component dt plain_connectMenu (Some opts) w)) (nextRef w)
        = empty_renderState
      \<and> nextRef (snd (menuSelect component dt plain_connectMenu (Some opts) w))
          = Suc (nextRef w)
      \<and> (\<forall>x. x \<noteq> nextRef w \<longrightarrow>
            renderStates (snd (menuSelect component dt plain_connectMenu (Some opts) w)) x
              = renderStates w x)
      \<and> renderStates (f p True v)
          = (renderStates v)
              (nextRef w := (renderStates v (nextRef w))
                 \<lparr>templateProps :=
                    Some (prepareTemplateProps (mso_transformData opts) dt
                            (templatesConfig (msp_instantSearchInstance p))
                            (withDefault dt (mso_templates opts)))\<rparr>)
      \<and> renderStates (f p False v) = renderStates v
      \<and> renderStates
          (invocations f ((p, True) # map (\<lambda>q. (q, False)) ps)
             (snd (menuSelect component dt plain_connectMenu (Some opts) w)))
          = (renderStates (snd (menuSelect component dt plain_connectMenu (Some opts) w)))
              (nextRef w :=
                 \<lparr>templateProps =
                    Some (prepareTemplateProps (mso_transformData opts) dt
                            (templatesConfig (msp_instantSearchInstance p))
                            (withDefault dt (mso_templates opts)))\<rparr>)
      \<and> (\<forall>w2 f2. nextRef (snd (menuSelect component dt plain_connectMenu (Some opts) w))
                      \<le> nextRef w2
            \<and> fst (menuSelect component2 dt2 plain_connectMenu (Some opts2) w2) = Inr f2
            \<longrightarrow> renderStates (f2 p2 b2 v) (nextRef w) = renderStates v (nextRef w)))
   \<and> renderStates (snd (searchBox g l c dt' conn arg w)) = renderStates w
   \<and> nextRef (snd (searchBox g l c dt' conn arg w)) = nextRef w
   \<and> (fst (searchBox g l c dt' plain_connectSearchBox (Some so) w) = Inr fs \<longrightarrow>
        renderStates (fs sp b v) = renderStates v)"
proof (intro conjI impI)
  assume a: "fst (menuSelect component dt plain_connectMenu (Some opts) w) = Inr f"
  from menuSelect_plain [OF a] obtain n where
    f: "f = renderer_menuSelect dt
              \<lparr>msa_containerNode = n,
               msa_cssClasses =
                 cssClasses_menuSelect component (withDefault Map.empty (mso_cssClasses opts)),
               msa_renderState = nextRef w,
               msa_templates = withDefault dt (mso_templates opts),
               msa_transformData = mso_transformData opts\<rparr>"
    and w': "renderStates (snd (menuSelect component dt plain_connectMenu (Some opts) w))
               = (renderStates w)(nextRef w := empty_renderState)"
    and r': "nextRef (snd (menuSelect component dt plain_connectMenu (Some opts) w))
               = Suc (nextRef w)"
    by blast
  show "renderStates (snd (menuSelect component dt plain_connectMenu (Some opts) w)) (nextRef w)
          = empty_renderState"
    by (simp add: w')
  show "nextRef (snd (menuSelect component dt plain_connectMenu (Some opts) w)) = Suc (nextRef w)"
    by (rule r')
  show "\<forall>x. x \<noteq> nextRef w \<longrightarrow>
            renderStates (snd (menuSelect component dt plain_connectMenu (Some opts) w)) x
              = renderStates w x"
    by (simp add: w')
  show "renderStates (f p True v)
          = (renderStates v)
              (nextRef w := (renderStates v (nextRef w))
                 \<lparr>templateProps :=
                    Some (prepareTemplateProps (mso_transformData opts) dt
                            (templatesConfig (msp_instantSearchInstance p))
                            (withDefault dt (mso_templates opts)))\<rparr>)"
    by (simp add: f renderer_menuSelect_def Let_def)
  show "renderStates (f p False v) = renderStates v"
    by (simp add: f renderer_menuSelect_def renderStates_render Let_def)
  show "renderStates
          (invocations f ((p, True) # map (\<lambda>q. (q, False)) ps)
             (snd (menuSelect component dt plain_connectMenu (Some opts) w)))
          = (renderStates (snd (menuSelect component dt plain_connectMenu (Some opts) w)))
              (nextRef w :=
                 \<lparr>templateProps =
                    Some (prepareTemplateProps (mso_transformData opts) dt
                            (templatesConfig (msp_instantSearchInstance p))
                            (withDefault dt (mso_templates opts)))\<rparr>)"
    by (simp add: f w' invocations_later renderer_menuSelect_def Let_def empty_renderState_def)
  show "\<forall>w2 f2. nextRef (snd (menuSelect component dt plain_connectMenu (Some opts) w))
                      \<le> nextRef w2
            \<and> fst (menuSelect component2 dt2 plain_connectMenu (Some opts2) w2) = Inr f2
            \<longrightarrow> renderStates (f2 p2 b2 v) (nextRef w) = renderStates v (nextRef w)"
  proof (intro allI impI)
    fix w2 f2
    assume b: "nextRef (snd (menuSelect component dt plain_connectMenu (Some opts) w))
                 \<le> nextRef w2
            \<and> fst (menuSelect component2 dt2 plain_connectMenu (Some opts2) w2) = Inr f2"
    from menuSelect_plain [OF b [THEN conjunct2]] obtain n2 where
      f2: "f2 = renderer_menuSelect dt2
              \<lparr>msa_containerNode = n2,
               msa_cssClasses =
                 cssClasses_menuSelect component2 (withDefault Map.empty (mso_cssClasses opts2)),
               msa_renderState = nextRef w2,
               msa_templates = withDefault dt2 (mso_templates opts2),
               msa_transformData = mso_transformData opts2\<rparr>"
      by blast
    show "renderStates (f2 p2 b2 v) (nextRef w) = renderStates v (nextRef w)"
      using b r' by (simp add: f2 renderer_menuSelect_def renderStates_render Let_def)
  qed
next
  show "renderStates (snd (searchBox g l c dt' conn arg w)) = renderStates w"
    by (simp add: searchBox_store)
  show "nextRef (snd (searchBox g l c dt' conn arg w)) = nextRef w"
    by (simp add: searchBox_store)
next
  assume "fst (searchBox g l c dt' plain_connectSearchBox (Some so) w) = Inr fs"
  from searchBox_plain [OF this] obtain n where
    "fs = renderer_searchBox
              \<lparr>sba_containerNode = n,
               sba_cssClasses =
                 cssClasses_searchBox c (withDefault Map.empty (sbo_cssClasses so)),
               sba_placeholder = withDefault [] (sbo_placeholder so),
               sba_templates = spread (Some dt') ++ spread (sbo_templates so),
               sba_autofocus = withDefault (JBoolean False) (sbo_autofocus so),
               sba_searchAsYouType = withDefault True (sbo_searchAsYouType so),
               sba_showReset = withDefault True (sbo_showReset so),
               sba_showSubmit = withDefault True (sbo_showSubmit so),
               sba_showLoadingIndicator = withDefault True (sbo_showLoadingIndicator so)\<rparr>"
    by blast
  then show "renderStates (fs sp b v) = renderStates v"
    by (simp add: renderer_searchBox_def renderStates_render)
qed

theorem renderState_written_once_witness:
  "fst (menuSelect example_component example_defaultTemplates plain_connectMenu
          (Some example_menuSelect_options) example_world) = Inr example_menuSelect_renderer
   \<and> renderStates (snd (menuSelect example_component example_defaultTemplates plain_connectMenu
                          (Some example_menuSelect_options) example_world)) 0
       = empty_renderState
   \<and> nextRef (snd (menuSelect example_component example_defaultTemplates plain_connectMenu
                      (Some example_menuSelect_options) example_world)) = 1
   \<and> renderStates
       (invocations example_menuSelect_renderer
          [(example_menuSelect_payload, True), (example_menuSelect_payload, False),
           (example_menuSelect_payload, False)]
          (snd (menuSelect example_component example_defaultTemplates plain_connectMenu
                  (Some example_menuSelect_options) example_world))) 0
       = \<lparr>templateProps =
            Some (prepareTemplateProps None example_defaultTemplates (Ref 2)
                    example_defaultTemplates)\<rparr>"
proof -
  have h: "fst (menuSelect example_component example_defaultTemplates plain_connectMenu
                  (Some example_menuSelect_options) example_world)
             = Inr example_menuSelect_renderer"
    by (simp add: menuSelect_def example_menuSelect_options_def example_world_def
          example_document_def getContainerNode_def new_renderState_def plain_connectMenu_def
          example_menuSelect_renderer_def withDefault_def Let_def)
  note t = renderState_written_once
             [where component = example_component and dt = example_defaultTemplates
                and opts = example_menuSelect_options and w = example_world
                and f = example_menuSelect_renderer and p = example_menuSelect_payload
                and ps = "[example_menuSelect_payload, example_menuSelect_payload]",
              THEN conjunct1, THEN mp, OF h]
  show ?thesis
    using h t
    by (simp add: example_menuSelect_options_def example_menuSelect_payload_def
          example_world_def withDefault_def)
qed

subsection \<open>Templates\<close>

text \<open>
  C5. Let a factory succeed, with the connector whose widget is the renderer it was
  given. Every invocation of the widget of \<open>searchBox\<close> hands the DOM-rendering
  library templates, and the first invocation of the widget of \<open>menuSelect\<close> stores
  template props whose resolved templates are such, that a slot present in the user's
  templates has the user's value and a slot absent from them has the default value;
  with no user templates at all, the templates are the defaults. The user's
  \<^verbatim>\<open>{ seeAllOptions: 'All' }\<close> over the defaults
  \<^verbatim>\<open>{ item: 'DEFAULT_ITEM', seeAllOptions: 'DEFAULT_ALL' }\<close> resolves to
  \<^verbatim>\<open>{ item: 'DEFAULT_ITEM', seeAllOptions: 'All' }\<close>.
\<close>

theorem template_merge:
  "(fst (searchBox g l c defaults plain_connectSearchBox (Some so) w) = Inr f \<longrightarrow>
      (\<exists>props n.
          renderCalls (f p b v) = renderCalls v @ [(SearchBox props, n)]
        \<and> (\<forall>user slot t. sbo_templates so = Some user \<and> user slot = Some t
              \<longrightarrow> sbx_templates props slot = Some t)
        \<and> (\<forall>user slot. sbo_templates so = Some user \<and> user slot = None
              \<longrightarrow> sbx_templates props slot = defaults slot)
        \<and> (sbo_templates so = None \<longrightarrow> sbx_templates props = defaults)
        \<and> (sbo_templates so = Some [''seeAllOptions'' \<mapsto> TemplateString ''All'']
             \<and> defaults = [''item'' \<mapsto> TemplateString ''DEFAULT_ITEM'',
                            ''seeAllOptions'' \<mapsto> TemplateString ''DEFAULT_ALL'']
              \<longrightarrow> sbx_templates props
                    = [''item'' \<mapsto> TemplateString ''DEFAULT_ITEM'',
                       ''seeAllOptions'' \<mapsto> TemplateString ''All''])))
   \<and> (fst (menuSelect c defaults plain_connectMenu (Some mo) w) = Inr f' \<longrightarrow>
      (\<exists>tp.
          templateProps (renderStates (f' q True v) (nextRef w)) = Some tp
        \<and> (\<forall>user slot t. mso_templates mo = Some user \<and> user slot = Some t
              \<longrightarrow> tp_templates tp slot = Some t)
        \<and> (\<forall>user slot. mso_templates mo = Some user \<and> user slot = None
              \<longrightarrow> tp_templates tp slot = defaults slot)
        \<and> (mso_templates mo = None \<longrightarrow> tp_templates tp = defaults)
        \<and> (mso_templates mo = Some [''seeAllOptions'' \<mapsto> TemplateString ''All'']
             \<and> defaults = [''item'' \<mapsto> TemplateString ''DEFAULT_ITEM'',
                            ''seeAllOptions'' \<mapsto> TemplateString ''DEFAULT_ALL'']
              \<longrightarrow> tp_templates tp
                    = [''item'' \<mapsto> TemplateString ''DEFAULT_ITEM'',
                       ''seeAllOptions'' \<mapsto> TemplateString ''All''])))"
proof (intro conjI impI)
  assume "fst (searchBox g l c defaults plain_connectSearchBox (Some so) w) = Inr f"
  from searchBox_plain [OF this] obtain n where
    f: "f = renderer_searchBox
              \<lparr>sba_containerNode = n,
               sba_cssClasses =
                 cssClasses_searchBox c (withDefault Map.empty (sbo_cssClasses so)),
               sba_placeholder = withDefault [] (sbo_placeholder so),
               sba_templates = spread (Some defaults) ++ spread (sbo_templates so),
               sba_autofocus = withDefault (JBoolean False) (sbo_autofocus so),
               sba_searchAsYouType = withDefault True (sbo_searchAsYouType so),
               sba_showReset = withDefault True (sbo_showReset so),
               sba_showSubmit = withDefault True (sbo_showSubmit so),
               sba_showLoadingIndicator = withDefault True (sbo_showLoadingIndicator so)\<rparr>"
    by blast
  show "\<exists>props n.
          renderCalls (f p b v) = renderCalls v @ [(SearchBox props, n)]
        \<and> (\<forall>user slot t. sbo_templates so = Some user \<and> user slot = Some t
              \<longrightarrow> sbx_templates props slot = Some t)
        \<and> (\<forall>user slot. sbo_templates so = Some user \<and> user slot = None
              \<longrightarrow> sbx_templates props slot = defaults slot)
        \<and> (sbo_templates so = None \<longrightarrow> sbx_templates props = defaults)
        \<and> (sbo_templates so = Some [''seeAllOptions'' \<mapsto> TemplateString ''All'']
             \<and> defaults = [''item'' \<mapsto> TemplateString ''DEFAULT_ITEM'',
                            ''seeAllOptions'' \<mapsto> TemplateString ''DEFAULT_ALL'']
              \<longrightarrow> sbx_templates props
                    = [''item'' \<mapsto> TemplateString ''DEFAULT_ITEM'',
                       ''seeAllOptions'' \<mapsto> TemplateString ''All''])"
    unfolding f renderer_searchBox_def renderCalls_render
    by (intro exI conjI, rule refl)
       (auto simp add: spread_def map_add_def fun_eq_iff)
next
  assume "fst (menuSelect c defaults plain_connectMenu (Some mo) w) = Inr f'"
  from menuSelect_plain [OF this] obtain n where
    f: "f' = renderer_menuSelect defaults
              \<lparr>msa_containerNode = n,
               msa_cssClasses =
                 cssClasses_menuSelect c (withDefault Map.empty (mso_cssClasses mo)),
               msa_renderState = nextRef w,
               msa_templates = withDefault defaults (mso_templates mo),
               msa_transformData = mso_transformData mo\<rparr>"
    by blast
  show "\<exists>tp.
          templateProps (renderStates (f' q True v) (nextRef w)) = Some tp
        \<and> (\<forall>user slot t. mso_templates mo = Some user \<and> user slot = Some t
              \<longrightarrow> tp_templates tp slot = Some t)
        \<and> (\<forall>user slot. mso_templates mo = Some user \<and> user slot = None
              \<longrightarrow> tp_templates tp slot = defaults slot)
        \<and> (mso_templates mo = None \<longrightarrow> tp_templates tp = defaults)
        \<and> (mso_templates mo = Some [''seeAllOptions'' \<mapsto> TemplateString ''All'']
             \<and> defaults = [''item'' \<mapsto> TemplateString ''DEFAULT_ITEM'',
                            ''seeAllOptions'' \<mapsto> TemplateString ''DEFAULT_ALL'']
              \<longrightarrow> tp_templates tp
                    = [''item'' \<mapsto> TemplateString ''DEFAULT_ITEM'',
                       ''seeAllOptions'' \<mapsto> TemplateString ''All''])"
    unfolding f
    by (auto simp add: renderer_menuSelect_def prepareTemplateProps_def withDefault_simps
          Let_def fun_eq_iff split: option.splits)
qed

theorem template_merge_witness:
  "fst (searchBox example_messageGenerator example_documentationLink example_component
          example_defaultTemplates plain_connectSearchBox (Some example_searchBox_options)
          example_world) = Inr example_searchBox_widget
   \<and> (\<exists>props n.
          renderCalls (example_searchBox_widget example_searchBox_payload True example_world)
            = renderCalls example_world @ [(SearchBox props, n)]
        \<and> sbx_templates props ''seeAllOptions'' = Some (TemplateString ''All'')
        \<and> sbx_templates props ''item'' = Some (TemplateString ''DEFAULT_ITEM'')
        \<and> sbx_templates props
             = [''item'' \<mapsto> TemplateString ''DEFAULT_ITEM'',
                ''seeAllOptions'' \<mapsto> TemplateString ''All''])
   \<and> fst (menuSelect example_component example_defaultTemplates plain_connectMenu
            (Some (example_menuSelect_options\<lparr>mso_templates := Some example_userTemplates\<rparr>))
            example_world) = Inr example_menuSelect_widget
   \<and> (\<exists>tp.
          templateProps (renderStates
             (example_menuSelect_widget example_menuSelect_payload True example_world) 0)
            = Some tp
        \<and> tp_templates tp ''seeAllOptions'' = Some (TemplateString ''All'')
        \<and> tp_templates tp ''item'' = Some (TemplateString ''DEFAULT_ITEM'')
        \<and> tp_templates tp
             = [''item'' \<mapsto> TemplateString ''DEFAULT_ITEM'',
                ''seeAllOptions'' \<mapsto> TemplateString ''All''])"
proof -
  let ?mo = "example_menuSelect_options\<lparr>mso_templates := Some example_userTemplates\<rparr>"
  have s: "fst (searchBox example_messageGenerator example_documentationLink example_component
                  example_defaultTemplates plain_connectSearchBox
                  (Some example_searchBox_options) example_world)
             = Inr example_searchBox_widget"
    by (simp add: searchBox_def example_searchBox_options_def searchBox_no_options_def
          example_world_def example_document_def getContainerNode_def warning_def
          plain_connectSearchBox_def example_searchBox_widget_def withDefault_def Let_def)
  have m: "fst (menuSelect example_component example_defaultTemplates plain_connectMenu
                  (Some ?mo) example_world)
             = Inr example_menuSelect_widget"
    by (simp add: menuSelect_def example_menuSelect_options_def example_world_def
          example_document_def getContainerNode_def new_renderState_def plain_connectMenu_def
          example_menuSelect_widget_def withDefault_def Let_def)
  have su: "sbo_templates example_searchBox_options = Some example_userTemplates"
    and mu: "mso_templates ?mo = Some example_userTemplates"
    and u1: "example_userTemplates ''seeAllOptions'' = Some (TemplateString ''All'')"
    and u2: "example_userTemplates ''item'' = None"
    and u3: "example_userTemplates = [''seeAllOptions'' \<mapsto> TemplateString ''All'']"
    and d1: "example_defaultTemplates ''item'' = Some (TemplateString ''DEFAULT_ITEM'')"
    and d2: "example_defaultTemplates = [''item'' \<mapsto> TemplateString ''DEFAULT_ITEM'',
                            ''seeAllOptions'' \<mapsto> TemplateString ''DEFAULT_ALL'']"
    and n0: "nextRef example_world = 0"
    and su3: "sbo_templates example_searchBox_options
                = Some [''seeAllOptions'' \<mapsto> TemplateString ''All'']"
    and mu3: "mso_templates ?mo = Some [''seeAllOptions'' \<mapsto> TemplateString ''All'']"
    by (simp_all add: example_searchBox_options_def example_userTemplates_def
          example_defaultTemplates_def example_world_def)
  note t = template_merge
             [where g = example_messageGenerator and l = example_documentationLink
                and c = example_component and defaults = example_defaultTemplates
                and so = example_searchBox_options and w = example_world
                and f = example_searchBox_widget and p = example_searchBox_payload
                and b = True and v = example_world and mo = ?mo
                and f' = example_menuSelect_widget and q = example_menuSelect_payload]
  from t [THEN conjunct1, THEN mp, OF s] obtain props n where
    p: "renderCalls (example_searchBox_widget example_searchBox_payload True example_world)
          = renderCalls example_world @ [(SearchBox props, n)]"
    and p1: "\<forall>user slot t. sbo_templates example_searchBox_options = Some user
                \<and> user slot = Some t \<longrightarrow> sbx_templates props slot = Some t"
    and p2: "\<forall>user slot. sbo_templates example_searchBox_options = Some user
                \<and> user slot = None \<longrightarrow> sbx_templates props slot = example_defaultTemplates slot"
    and p3: "sbo_templates example_searchBox_options
               = Some [''seeAllOptions'' \<mapsto> TemplateString ''All'']
             \<and> example_defaultTemplates
                 = [''item'' \<mapsto> TemplateString ''DEFAULT_ITEM'',
                    ''seeAllOptions'' \<mapsto> TemplateString ''DEFAULT_ALL'']
             \<longrightarrow> sbx_templates props
                   = [''item'' \<mapsto> TemplateString ''DEFAULT_ITEM'',
                      ''seeAllOptions'' \<mapsto> TemplateString ''All'']"
    by (elim exE conjE)
  from t [THEN conjunct2, THEN mp, OF m] obtain tp where
    q: "templateProps (renderStates
          (example_menuSelect_widget example_menuSelect_payload True example_world)
          (nextRef example_world)) = Some tp"
    and q1: "\<forall>user slot t. mso_templates ?mo = Some user \<and> user slot = Some t
                \<longrightarrow> tp_templates tp slot = Some t"
    and q2: "\<forall>user slot. mso_templates ?mo = Some user \<and> user slot = None
                \<longrightarrow> tp_templates tp slot = example_defaultTemplates slot"
    and q3: "mso_templates ?mo = Some [''seeAllOptions'' \<mapsto> TemplateString ''All'']
             \<and> example_defaultTemplates
                 = [''item'' \<mapsto> TemplateString ''DEFAULT_ITEM'',
                    ''seeAllOptions'' \<mapsto> TemplateString ''DEFAULT_ALL'']
             \<longrightarrow> tp_templates tp
                   = [''item'' \<mapsto> TemplateString ''DEFAULT_ITEM'',
                      ''seeAllOptions'' \<mapsto> TemplateString ''All'']"
    by (elim exE conjE)
  have a: "sbx_templates props ''seeAllOptions'' = Some (TemplateString ''All'')"
    using p1 [rule_format, OF conjI [OF su u1]] .
  have b: "sbx_templates props ''item'' = Some (TemplateString ''DEFAULT_ITEM'')"
    using p2 [rule_format, OF conjI [OF su u2]] d1 by simp
  have c: "sbx_templates props
             = [''item'' \<mapsto> TemplateString ''DEFAULT_ITEM'',
                ''seeAllOptions'' \<mapsto> TemplateString ''All'']"
    using p3 [THEN mp, OF conjI [OF su3 d2]] .
  have a': "tp_templates tp ''seeAllOptions'' = Some (TemplateString ''All'')"
    using q1 [rule_format, OF conjI [OF mu u1]] .
  have b': "tp_templates tp ''item'' = Some (TemplateString ''DEFAULT_ITEM'')"
    using q2 [rule_format, OF conjI [OF mu u2]] d1 by simp
  have c': "tp_templates tp
             = [''item'' \<mapsto> TemplateString ''DEFAULT_ITEM'',
                ''seeAllOptions'' \<mapsto> TemplateString ''All'']"
    using q3 [THEN mp, OF conjI [OF mu3 d2]] .
  from q n0 have q0: "templateProps (renderStates
          (example_menuSelect_widget example_menuSelect_payload True example_world) 0) = Some tp"
    by simp
  have e1: "\<exists>props n.
          renderCalls (example_searchBox_widget example_searchBox_payload True example_world)
            = renderCalls example_world @ [(SearchBox props, n)]
        \<and> sbx_templates props ''seeAllOptions'' = Some (TemplateString ''All'')
        \<and> sbx_templates props ''item'' = Some (TemplateString ''DEFAULT_ITEM'')
        \<and> sbx_templates props
             = [''item'' \<mapsto> TemplateString ''DEFAULT_ITEM'',
                ''seeAllOptions'' \<mapsto> TemplateString ''All'']"
    by (intro exI conjI) (rule p, rule a, rule b, rule c)
  have e2: "\<exists>tp.
          templateProps (renderStates
             (example_menuSelect_widget example_menuSelect_payload True example_world) 0)
            = Some tp
        \<and> tp_templates tp ''seeAllOptions'' = Some (TemplateString ''All'')
        \<and> tp_templates tp ''item'' = Some (TemplateString ''DEFAULT_ITEM'')
        \<and> tp_templates tp
             = [''item'' \<mapsto> TemplateString ''DEFAULT_ITEM'',
                ''seeAllOptions'' \<mapsto> TemplateString ''All'']"
    by (intro exI conjI) (rule q0, rule a', rule b', rule c')
  show ?thesis
    by (intro conjI) (rule s, rule e1, rule m, rule e2)
qed

subsection \<open>Class names\<close>





end
